theory Spec2Isabelle
  imports Complex_Main "HOL-Library.Multiset"
begin

section \<open>Numbers\<close>

text \<open>
  The program computes with Python floats and NumPy/pandas \<open>float64\<close> values. They are
  modelled as the extended reals of IEEE-754: a finite value, the two infinities and
  NaN. Arithmetic on finite values is exact real arithmetic (rounding, overflow,
  underflow and the sign of zero are not modelled; a zero is a positive zero); the special
  values follow IEEE-754, which is what NumPy and pandas compute when a division by zero
  occurs (the module silences the accompanying warnings with
  \<^verbatim>\<open>warnings.filterwarnings('ignore')\<close>).
\<close>

datatype float64 = Fin real | PInf | NInf | NaN

fun fadd :: "float64 \<Rightarrow> float64 \<Rightarrow> float64" where
  "fadd NaN _ = NaN"
| "fadd _ NaN = NaN"
| "fadd (Fin a) (Fin b) = Fin (a + b)"
| "fadd (Fin a) PInf = PInf"
| "fadd (Fin a) NInf = NInf"
| "fadd PInf (Fin b) = PInf"
| "fadd PInf PInf = PInf"
| "fadd PInf NInf = NaN"
| "fadd NInf (Fin b) = NInf"
| "fadd NInf PInf = NaN"
| "fadd NInf NInf = NInf"

definition inf_signed :: "real \<Rightarrow> float64" where
  \<comment> \<open>an infinity times a finite factor: NaN for 0, otherwise the sign decides\<close>
  "inf_signed a = (if a = 0 then NaN else if 0 < a then PInf else NInf)"

fun fmul :: "float64 \<Rightarrow> float64 \<Rightarrow> float64" where
  "fmul NaN _ = NaN"
| "fmul _ NaN = NaN"
| "fmul (Fin a) (Fin b) = Fin (a * b)"
| "fmul (Fin a) PInf = inf_signed a"
| "fmul (Fin a) NInf = inf_signed (- a)"
| "fmul PInf (Fin b) = inf_signed b"
| "fmul PInf PInf = PInf"
| "fmul PInf NInf = NInf"
| "fmul NInf (Fin b) = inf_signed (- b)"
| "fmul NInf PInf = NInf"
| "fmul NInf NInf = PInf"

fun fdiv :: "float64 \<Rightarrow> float64 \<Rightarrow> float64" where
  \<comment> \<open>NumPy/pandas true division: a zero divisor gives an infinity or NaN, no exception\<close>
  "fdiv NaN _ = NaN"
| "fdiv _ NaN = NaN"
| "fdiv (Fin a) (Fin b) = (if b = 0 then inf_signed a else Fin (a / b))"
| "fdiv (Fin a) PInf = Fin 0"
| "fdiv (Fin a) NInf = Fin 0"
| "fdiv PInf (Fin b) = (if 0 \<le> b then PInf else NInf)"
| "fdiv NInf (Fin b) = (if 0 \<le> b then NInf else PInf)"
| "fdiv PInf PInf = NaN"
| "fdiv PInf NInf = NaN"
| "fdiv NInf PInf = NaN"
| "fdiv NInf NInf = NaN"

fun flt :: "float64 \<Rightarrow> float64 \<Rightarrow> bool" where
  \<comment> \<open>the comparison \<open><\<close>: false as soon as one side is NaN\<close>
  "flt (Fin a) (Fin b) = (a < b)"
| "flt (Fin a) PInf = True"
| "flt NInf (Fin b) = True"
| "flt NInf PInf = True"
| "flt _ _ = False"

fun fle :: "float64 \<Rightarrow> float64 \<Rightarrow> bool" where
  \<comment> \<open>the comparison \<open>\<le>\<close>: false as soon as one side is NaN\<close>
  "fle NaN _ = False"
| "fle _ NaN = False"
| "fle (Fin a) (Fin b) = (a \<le> b)"
| "fle NInf _ = True"
| "fle _ PInf = True"
| "fle _ _ = False"

datatype py_error = ZeroDivisionError | KeyError string

text \<open>
  A scalar parameter annotated \<open>float\<close> is, at run time, either a built-in Python number
  or a NumPy \<open>float64\<close> scalar (\<open>np.float64\<close> is a subclass of \<open>float\<close>; a fitting
  routine passes such scalars). The two differ in what \<open>/\<close> does with a zero divisor: the
  built-in division raises \<open>ZeroDivisionError\<close>, the NumPy division returns an infinity or
  NaN.
\<close>

datatype py_float = PyFloat float64 | NpFloat64 float64

fun py_value :: "py_float \<Rightarrow> float64" where
  "py_value (PyFloat v) = v"
| "py_value (NpFloat64 v) = v"

definition py_truediv :: "float64 \<Rightarrow> py_float \<Rightarrow> py_error + float64" where
  \<comment> \<open>\<open>a / b\<close> for a built-in number \<open>a\<close>\<close>
  "py_truediv a b =
     (case b of
        PyFloat v \<Rightarrow> (if v = Fin 0 then Inl ZeroDivisionError else Inr (fdiv a v))
      | NpFloat64 v \<Rightarrow> Inr (fdiv a v))"

definition np_power_real :: "real \<Rightarrow> real \<Rightarrow> float64" where
  \<comment> \<open>\<open>pow\<close> on finite arguments, the exponent not 0\<close>
  "np_power_real a b =
     (if 0 < a then Fin (a powr b)
      else if a = 0 then (if 0 < b then Fin 0 else PInf)
      else if b \<in> \<int> then Fin ((if even \<lfloor>b\<rfloor> then 1 else - 1) * (\<bar>a\<bar> powr b))
      else NaN)"

definition np_power :: "float64 \<Rightarrow> float64 \<Rightarrow> float64" where
  \<comment> \<open>\<open>np.power\<close> on one element: C's \<open>pow\<close>\<close>
  "np_power x y =
     (if y = Fin 0 \<or> x = Fin 1 then Fin 1
      else case x of
        NaN \<Rightarrow> NaN
      | Fin a \<Rightarrow> (case y of
            NaN \<Rightarrow> NaN
          | Fin b \<Rightarrow> np_power_real a b
          | PInf \<Rightarrow> (if \<bar>a\<bar> < 1 then Fin 0 else if \<bar>a\<bar> = 1 then Fin 1 else PInf)
          | NInf \<Rightarrow> (if \<bar>a\<bar> < 1 then PInf else if \<bar>a\<bar> = 1 then Fin 1 else Fin 0))
      | PInf \<Rightarrow> (case y of
            NaN \<Rightarrow> NaN
          | Fin b \<Rightarrow> (if 0 < b then PInf else Fin 0)
          | PInf \<Rightarrow> PInf
          | NInf \<Rightarrow> Fin 0)
      | NInf \<Rightarrow> (case y of
            NaN \<Rightarrow> NaN
          | Fin b \<Rightarrow> (if 0 < b then (if b \<in> \<int> \<and> odd \<lfloor>b\<rfloor> then NInf else PInf) else Fin 0)
          | PInf \<Rightarrow> PInf
          | NInf \<Rightarrow> Fin 0))"

definition np_mean :: "float64 list \<Rightarrow> float64" where
  \<comment> \<open>\<open>np.mean\<close>: the sum over the length; NaN for an empty array (0.0 / 0)\<close>
  "np_mean xs = fdiv (foldl fadd (Fin 0) xs) (Fin (real (length xs)))"

section \<open>MOFAdsorptionSimulator\<close>

definition langmuir_isotherm :: "float64 list \<Rightarrow> float64 \<Rightarrow> float64 \<Rightarrow> float64 list" where
  "langmuir_isotherm P q_max K =
     map (\<lambda>p. fdiv (fmul (fmul q_max K) p) (fadd (Fin 1) (fmul K p))) P"

definition freundlich_isotherm ::
  "float64 list \<Rightarrow> float64 \<Rightarrow> py_float \<Rightarrow> py_error + float64 list" where
  "freundlich_isotherm P K_f n =
     (case py_truediv (Fin 1) n of
        Inl e \<Rightarrow> Inl e
      | Inr ex \<Rightarrow> Inr (map (\<lambda>p. fmul K_f (np_power p ex)) P))"

definition toth_isotherm ::
  "float64 list \<Rightarrow> float64 \<Rightarrow> float64 \<Rightarrow> py_float \<Rightarrow> py_error + float64 list" where
  "toth_isotherm P q_max b t =
     (case py_truediv (Fin 1) t of
        Inl e \<Rightarrow> Inl e
      | Inr ex \<Rightarrow>
          Inr (map (\<lambda>p. fdiv (fmul q_max (fmul b p))
                          (np_power (fadd (Fin 1) (np_power (fmul b p) (py_value t))) ex)) P))"

record isotherm_result =
  humidity :: "float64 list"
  water_uptake :: "float64 list"
  daily_yield_L_kg_day :: float64
  res_q_max :: float64
  res_K :: float64
  model :: string

definition dict_get :: "(string \<rightharpoonup> 'v) \<Rightarrow> string \<Rightarrow> 'v \<Rightarrow> 'v" where
  \<comment> \<open>\<open>d.get(key, default)\<close>\<close>
  "dict_get d k dflt = (case d k of None \<Rightarrow> dflt | Some v \<Rightarrow> v)"

definition simulate_mof_performance ::
  "(string \<rightharpoonup> float64) \<Rightarrow> float64 list \<Rightarrow> float64 \<Rightarrow> isotherm_result" where
  "simulate_mof_performance mof_properties humidity_range temperature_K =
     (let surface_area = dict_get mof_properties ''surface_area_m2g'' (Fin 1000);
          pore_volume = dict_get mof_properties ''pore_volume_cm3g'' (Fin 0.5);
          hydrophilicity = dict_get mof_properties ''hydrophilicity'' (Fin 0.5);
          max_uptake = dict_get mof_properties ''max_water_uptake'' (Fin 0.3);
          q_max = fmul max_uptake (fadd (Fin 1) (fmul (Fin 0.3) hydrophilicity));
          K = fmul (fmul (Fin 5.0) hydrophilicity) (fdiv surface_area (Fin 1000));
          water_uptake = langmuir_isotherm humidity_range q_max K;
          cycles_per_day = Fin 4;
          avg_uptake = np_mean water_uptake;
          daily_yield = fmul avg_uptake cycles_per_day
      in \<lparr> humidity = humidity_range,
           water_uptake = water_uptake,
           daily_yield_L_kg_day = daily_yield,
           res_q_max = q_max,
           res_K = K,
           model = ''langmuir'' \<rparr>)"

section \<open>HighAltitudeOptimizer\<close>

record conditions =
  pressure_atm :: float64
  temp_K :: float64
  humidity_avg :: float64

definition altitude_conditions :: "string \<rightharpoonup> conditions" where
  "altitude_conditions =
     [''sea_level'' \<mapsto> \<lparr>pressure_atm = Fin 1.0, temp_K = Fin 298, humidity_avg = Fin 0.6\<rparr>,
      ''low_altitude'' \<mapsto> \<lparr>pressure_atm = Fin 0.95, temp_K = Fin 295, humidity_avg = Fin 0.5\<rparr>,
      ''mid_altitude'' \<mapsto> \<lparr>pressure_atm = Fin 0.85, temp_K = Fin 288, humidity_avg = Fin 0.4\<rparr>,
      ''high_altitude'' \<mapsto> \<lparr>pressure_atm = Fin 0.7, temp_K = Fin 280, humidity_avg = Fin 0.3\<rparr>]"

definition categorize_altitude :: "float64 \<Rightarrow> string" where
  "categorize_altitude altitude_m =
     (if flt altitude_m (Fin 500) then ''sea_level''
      else if flt altitude_m (Fin 1500) then ''low_altitude''
      else if flt altitude_m (Fin 3000) then ''mid_altitude''
      else ''high_altitude'')"

text \<open>
  A row of the material table (a pandas DataFrame with the identifier column and the six
  property columns), and a row of the returned table, which has the two added columns.
  A table that lacks one of the columns, on which the program stops with a \<open>KeyError\<close>,
  is not a value of this type.
\<close>

record mof_row =
  Fips :: int
  surface_area_m2g :: float64
  pore_volume_cm3g :: float64
  hydrophilicity :: float64
  max_water_uptake :: float64
  thermal_stability_K :: float64
  cost_per_kg :: float64

record ranked_row = mof_row +
  performance_score :: float64
  estimated_daily_yield :: float64

definition np_clip :: "float64 \<Rightarrow> float64 \<Rightarrow> float64 \<Rightarrow> float64" where
  \<comment> \<open>\<open>np.clip\<close> on one element: NaN stays NaN\<close>
  "np_clip x lo hi = (if flt x lo then lo else if flt hi x then hi else x)"

definition assign_columns :: "mof_row list \<Rightarrow> float64 list \<Rightarrow> float64 list \<Rightarrow> ranked_row list" where
  \<comment> \<open>\<open>mof_df['performance_score'] = ...; mof_df['estimated_daily_yield'] = ...\<close>\<close>
  "assign_columns df scores yields =
     map (\<lambda>(r, s, y). mof_row.extend r (ranked_row.fields s y)) (zip df (zip scores yields))"

text \<open>
  \<open>DataFrame.sort_values(by, ascending=False)\<close> on one column is pandas' \<open>nargsort\<close>
  with \<open>na_position='last'\<close>: the NaN entries are set aside, the others are reversed,
  sorted ascending by NumPy's \<open>argsort\<close> of the requested kind, and the resulting
  index list is reversed again; the NaN entries follow in their original order. The
  program requests no kind, so the kind is pandas' default \<open>'quicksort'\<close>. NumPy's
  \<open>argsort\<close> is library code; it is the first argument here, and the properties below
  assume of it only what NumPy documents (\<open>argsort_ok\<close>).
\<close>

definition nargsort :: "(float64 list \<Rightarrow> nat list) \<Rightarrow> float64 list \<Rightarrow> nat list" where
  "nargsort argsort items =
     (let idx = [0..<length items];
          non_nan_idx = filter (\<lambda>i. items ! i \<noteq> NaN) idx;
          nan_idx = filter (\<lambda>i. items ! i = NaN) idx;
          non_nans = map (\<lambda>i. items ! i) non_nan_idx;
          non_nans_r = rev non_nans;
          non_nan_idx_r = rev non_nan_idx;
          indexer = map (\<lambda>j. non_nan_idx_r ! j) (argsort non_nans_r)
      in rev indexer @ nan_idx)"

definition sort_values_desc ::
  "(float64 list \<Rightarrow> nat list) \<Rightarrow> ranked_row list \<Rightarrow> ranked_row list" where
  \<comment> \<open>\<open>df.sort_values('performance_score', ascending=False)\<close>\<close>
  "sort_values_desc argsort df =
     map (\<lambda>i. df ! i) (nargsort argsort (map performance_score df))"

definition optimize_for_location ::
  "(float64 list \<Rightarrow> nat list) \<Rightarrow> mof_row list \<Rightarrow> (string \<rightharpoonup> float64)
     \<Rightarrow> py_error + ranked_row list" where
  "optimize_for_location argsort mof_df location_data =
     (let altitude_category = categorize_altitude (dict_get location_data ''altitude_m'' (Fin 0))
      in case altitude_conditions altitude_category of
           None \<Rightarrow> Inl (KeyError altitude_category)
         | Some conditions \<Rightarrow>
            (let humidity_factor =
                   map (\<lambda>x. fdiv x (humidity_avg conditions)) (map hydrophilicity mof_df);
                 temp_factor =
                   map (\<lambda>x. np_clip x (Fin 0.8) (Fin 1.2))
                     (map (\<lambda>x. fdiv x (temp_K conditions)) (map thermal_stability_K mof_df));
                 capacity_factor =
                   map2 fmul (map (\<lambda>x. fdiv x (Fin 1000)) (map surface_area_m2g mof_df))
                     (map pore_volume_cm3g mof_df);
                 cost_factor =
                   map (\<lambda>x. fdiv (Fin 1) x) (map (\<lambda>x. fdiv x (Fin 50)) (map cost_per_kg mof_df));
                 score =
                   map2 fadd
                     (map2 fadd
                        (map2 fadd (map (fmul (Fin 0.3)) humidity_factor)
                           (map (fmul (Fin 0.25)) temp_factor))
                        (map (fmul (Fin 0.25)) capacity_factor))
                     (map (fmul (Fin 0.2)) cost_factor);
                 yield =
                   map (\<lambda>x. fmul x (Fin 4))
                     (map (\<lambda>x. fmul x (humidity_avg conditions)) (map max_water_uptake mof_df))
             in Inr (sort_values_desc argsort (assign_columns mof_df score yield))))"

text \<open>
  What NumPy documents of \<open>argsort\<close>, for every kind: on an array without NaN the
  result is a permutation of the positions that lists the values in ascending order.
\<close>

definition argsort_ok :: "(float64 list \<Rightarrow> nat list) \<Rightarrow> bool" where
  "argsort_ok argsort \<longleftrightarrow>
     (\<forall>xs. NaN \<notin> set xs \<longrightarrow>
        mset (argsort xs) = mset [0..<length xs] \<and>
        sorted_wrt (\<lambda>i j. fle (xs ! i) (xs ! j)) (argsort xs))"

text \<open>
  A stable kind (\<open>'stable'\<close>, \<open>'mergesort'\<close>) moreover lists equal values in the order
  of their positions. The default kind \<open>'quicksort'\<close> is documented as not stable.
\<close>

definition argsort_stable :: "(float64 list \<Rightarrow> nat list) \<Rightarrow> bool" where
  "argsort_stable argsort \<longleftrightarrow>
     (\<forall>xs. NaN \<notin> set xs \<longrightarrow>
        sorted_wrt (\<lambda>i j. xs ! i = xs ! j \<longrightarrow> i < j) (argsort xs))"


fun insort_after :: "float64 list \<Rightarrow> nat \<Rightarrow> nat list \<Rightarrow> nat list" where
  \<comment> \<open>insert position \<open>i\<close> in front of the first entry that is greater\<close>
  "insort_after xs i [] = [i]"
| "insort_after xs i (j # js) =
     (if flt (xs ! i) (xs ! j) then i # j # js else j # insort_after xs i js)"

definition argsort_insertion :: "float64 list \<Rightarrow> nat list" where
  \<comment> \<open>stable: a position is inserted after the earlier positions of equal value\<close>
  "argsort_insertion xs = foldl (\<lambda>acc i. insort_after xs i acc) [] [0..<length xs]"


section \<open>The specification's row-wise description of the ranking\<close>

text \<open>
  The specification describes \<open>optimize_for_location\<close> row by row: the reference values
  of the band of the site's altitude, four factors per material, their weighted sum and the
  yield estimate. These definitions follow the specification's words; the program computes
  the same quantities column by column and is compared with them below.
\<close>

definition band_conditions :: "float64 \<Rightarrow> conditions" where
  "band_conditions altitude =
     (if flt altitude (Fin 500)
        then \<lparr>pressure_atm = Fin 1.0, temp_K = Fin 298, humidity_avg = Fin 0.6\<rparr>
      else if flt altitude (Fin 1500)
        then \<lparr>pressure_atm = Fin 0.95, temp_K = Fin 295, humidity_avg = Fin 0.5\<rparr>
      else if flt altitude (Fin 3000)
        then \<lparr>pressure_atm = Fin 0.85, temp_K = Fin 288, humidity_avg = Fin 0.4\<rparr>
      else \<lparr>pressure_atm = Fin 0.7, temp_K = Fin 280, humidity_avg = Fin 0.3\<rparr>)"

definition spec_humidity_factor :: "conditions \<Rightarrow> mof_row \<Rightarrow> float64" where
  "spec_humidity_factor c r = fdiv (hydrophilicity r) (humidity_avg c)"

definition spec_temp_factor :: "conditions \<Rightarrow> mof_row \<Rightarrow> float64" where
  "spec_temp_factor c r = np_clip (fdiv (thermal_stability_K r) (temp_K c)) (Fin 0.8) (Fin 1.2)"

definition spec_capacity_factor :: "mof_row \<Rightarrow> float64" where
  "spec_capacity_factor r = fmul (fdiv (surface_area_m2g r) (Fin 1000)) (pore_volume_cm3g r)"

definition spec_cost_factor :: "mof_row \<Rightarrow> float64" where
  "spec_cost_factor r = fdiv (Fin 1) (fdiv (cost_per_kg r) (Fin 50))"

definition spec_performance_score :: "conditions \<Rightarrow> mof_row \<Rightarrow> float64" where
  "spec_performance_score c r =
     fadd (fadd (fadd (fmul (Fin 0.3) (spec_humidity_factor c r))
                      (fmul (Fin 0.25) (spec_temp_factor c r)))
                (fmul (Fin 0.25) (spec_capacity_factor r)))
          (fmul (Fin 0.2) (spec_cost_factor r))"

definition spec_estimated_daily_yield :: "conditions \<Rightarrow> mof_row \<Rightarrow> float64" where
  "spec_estimated_daily_yield c r = fmul (fmul (max_water_uptake r) (humidity_avg c)) (Fin 4)"

definition spec_ranked_row :: "conditions \<Rightarrow> mof_row \<Rightarrow> ranked_row" where
  "spec_ranked_row c r =
     mof_row.extend r
       (ranked_row.fields (spec_performance_score c r) (spec_estimated_daily_yield c r))"

text \<open>
  The material of the specification's end-to-end scenario, with the identifier, the
  hydrophilicity and the cost left open, and the same material with the two added columns.
\<close>

definition example_mof :: "int \<Rightarrow> float64 \<Rightarrow> float64 \<Rightarrow> mof_row" where
  "example_mof i h c =
     \<lparr>Fips = i, surface_area_m2g = Fin 1000, pore_volume_cm3g = Fin 0.5, hydrophilicity = h,
      max_water_uptake = Fin 0.3, thermal_stability_K = Fin 600, cost_per_kg = c\<rparr>"

definition example_ranked :: "int \<Rightarrow> float64 \<Rightarrow> float64 \<Rightarrow> float64 \<Rightarrow> float64 \<Rightarrow> ranked_row" where
  "example_ranked i h c s y =
     \<lparr>Fips = i, surface_area_m2g = Fin 1000, pore_volume_cm3g = Fin 0.5, hydrophilicity = h,
      max_water_uptake = Fin 0.3, thermal_stability_K = Fin 600, cost_per_kg = c,
      performance_score = s, estimated_daily_yield = y\<rparr>"

section \<open>Properties of the isotherm models\<close>

text \<open>
  Claim C7, as amended. With the exponent parameter \<open>n = 0\<close> given as a built-in Python
  number the Freundlich isotherm fails with Python's \<open>ZeroDivisionError\<close>, raised by
  \<open>1/n\<close> (the program defines no \<open>DomainError\<close>), and so does the Toth isotherm with
  \<open>t = 0\<close>. Given as a NumPy \<open>float64\<close> zero, \<open>1/n\<close> is an infinity and both isotherms
  return a result without error. For every \<open>n \<noteq> 0\<close>, of either kind, the Freundlich
  isotherm returns \<open>K_f \<sqdot> p\<^sup>1\<^sup>/\<^sup>n\<close> for each humidity \<open>p\<close>, without error.
\<close>

theorem C7_exponent_zero:
  assumes "v \<noteq> Fin 0"
  shows "freundlich_isotherm P K_f (PyFloat (Fin 0)) = Inl ZeroDivisionError
    \<and> toth_isotherm P q_max b (PyFloat (Fin 0)) = Inl ZeroDivisionError
    \<and> (\<exists>ys. freundlich_isotherm P K_f (NpFloat64 (Fin 0)) = Inr ys \<and> length ys = length P)
    \<and> (\<exists>ys. toth_isotherm P q_max b (NpFloat64 (Fin 0)) = Inr ys \<and> length ys = length P)
    \<and> freundlich_isotherm P K_f (PyFloat v) =
        Inr (map (\<lambda>p. fmul K_f (np_power p (fdiv (Fin 1) v))) P)
    \<and> freundlich_isotherm P K_f (NpFloat64 v) =
        Inr (map (\<lambda>p. fmul K_f (np_power p (fdiv (Fin 1) v))) P)"
  using assms by (simp add: freundlich_isotherm_def toth_isotherm_def py_truediv_def)

theorem C7_exponent_zero_witness:
  "freundlich_isotherm [Fin 0, Fin 3] (Fin 2) (PyFloat (Fin 0.5)) = Inr [Fin 0, Fin 18]
   \<and> freundlich_isotherm [Fin 0, Fin 3] (Fin 2) (NpFloat64 (Fin 0.5)) = Inr [Fin 0, Fin 18]
   \<and> freundlich_isotherm [Fin 0, Fin 3] (Fin 2) (PyFloat (Fin 0)) = Inl ZeroDivisionError
   \<and> toth_isotherm [Fin 0, Fin 3] (Fin 2) (Fin 1) (PyFloat (Fin 0)) = Inl ZeroDivisionError"
proof -
  have v: "Fin 0.5 \<noteq> Fin 0" by simp
  have p0: "np_power (Fin 0) (Fin 2) = Fin 0"
    by (simp add: np_power_def np_power_real_def)
  have p3: "np_power (Fin 3) (Fin 2) = Fin 9"
    by (simp add: np_power_def np_power_real_def)
  from C7_exponent_zero [OF v, of "[Fin 0, Fin 3]" "Fin 2" "Fin 2" "Fin 1"]
  show ?thesis by (simp add: p0 p3)
qed

text \<open>
  Claim C7 as stated (every zero exponent fails) does not hold: with the NumPy scalar
  \<open>np.float64(0.0)\<close> as \<open>n\<close> (as \<open>t\<close>) no exception is raised; at humidity 0.5 both
  isotherms return 0.
\<close>

theorem C7_numpy_zero_counterexample:
  "freundlich_isotherm [Fin 0.5] (Fin 1) (NpFloat64 (Fin 0)) = Inr [Fin 0]
   \<and> toth_isotherm [Fin 0.5] (Fin 1) (Fin 1) (NpFloat64 (Fin 0)) = Inr [Fin 0]"
  by (simp add: freundlich_isotherm_def toth_isotherm_def py_truediv_def np_power_def
      inf_signed_def)

section \<open>Properties of the simulation\<close>

text \<open>
  Claim C2. For a material mapping that holds \<open>surface_area_m2g\<close>, \<open>hydrophilicity\<close> and
  \<open>max_water_uptake\<close>, and every humidity sequence, the simulation returns exactly
  \<open>q_max = max_water_uptake \<sqdot> (1 + 0.3 \<sqdot> hydrophilicity)\<close>,
  \<open>K = 5.0 \<sqdot> hydrophilicity \<sqdot> (surface_area_m2g / 1000)\<close>, the Langmuir uptake curve for
  these two parameters, the daily yield \<open>mean(uptake) \<sqdot> 4\<close> and the model name
  \<open>langmuir\<close>, together with the humidity sequence itself.
\<close>

theorem C2_simulate_result:
  assumes "m ''surface_area_m2g'' = Some sa" and "m ''hydrophilicity'' = Some h"
    and "m ''max_water_uptake'' = Some mu"
  shows "simulate_mof_performance m hs t =
     \<lparr> humidity = hs,
       water_uptake =
         langmuir_isotherm hs (fmul mu (fadd (Fin 1) (fmul (Fin 0.3) h)))
           (fmul (fmul (Fin 5.0) h) (fdiv sa (Fin 1000))),
       daily_yield_L_kg_day =
         fmul (np_mean (langmuir_isotherm hs (fmul mu (fadd (Fin 1) (fmul (Fin 0.3) h)))
           (fmul (fmul (Fin 5.0) h) (fdiv sa (Fin 1000))))) (Fin 4),
       res_q_max = fmul mu (fadd (Fin 1) (fmul (Fin 0.3) h)),
       res_K = fmul (fmul (Fin 5.0) h) (fdiv sa (Fin 1000)),
       model = ''langmuir'' \<rparr>"
  using assms by (simp add: simulate_mof_performance_def dict_get_def Let_def)

theorem C2_simulate_result_witness:
  "simulate_mof_performance
     [''surface_area_m2g'' \<mapsto> Fin 1000, ''hydrophilicity'' \<mapsto> Fin 0.5,
      ''max_water_uptake'' \<mapsto> Fin 0.3]
     [Fin 0.1, Fin 0.5, Fin 0.9] (Fin 298) =
   \<lparr> humidity = [Fin 0.1, Fin 0.5, Fin 0.9],
     water_uptake = [Fin (69 / 1000), Fin (23 / 120), Fin (621 / 2600)],
     daily_yield_L_kg_day = Fin (19481 / 29250),
     res_q_max = Fin (69 / 200), res_K = Fin (5 / 2), model = ''langmuir'' \<rparr>"
  using C2_simulate_result [of "[''surface_area_m2g'' \<mapsto> Fin 1000,
      ''hydrophilicity'' \<mapsto> Fin 0.5, ''max_water_uptake'' \<mapsto> Fin 0.3]"
     "Fin 1000" "Fin 0.5" "Fin 0.3" "[Fin 0.1, Fin 0.5, Fin 0.9]" "Fin 298"]
  by (simp add: langmuir_isotherm_def np_mean_def)

text \<open>
  Claim C9. The result of the simulation does not depend on the temperature argument:
  two calls that differ only in \<open>temperature_K\<close> return the same result.
\<close>

theorem C9_temperature_unused:
  "simulate_mof_performance m hs t1 = simulate_mof_performance m hs t2"
  by (simp add: simulate_mof_performance_def)

text \<open>
  Claim C10. The simulation has no failing branch, and a missing \<open>surface_area_m2g\<close>,
  \<open>hydrophilicity\<close> or \<open>max_water_uptake\<close> is replaced by 1000, 0.5 and 0.3, with which
  the simulation proceeds: for every material mapping the result is the one computed from
  the values present and these defaults for the values absent, and on the empty mapping it
  is the result for 1000, 0.5 and 0.3. A missing \<open>pore_volume_cm3g\<close> is replaced by 0.5,
  which is read and has no influence on the result: the result is the same with any pore
  volume and with none.
\<close>

theorem C10_missing_fields_default:
  "(let surface_area = (case m ''surface_area_m2g'' of None \<Rightarrow> Fin 1000 | Some x \<Rightarrow> x);
        hydrophilicity = (case m ''hydrophilicity'' of None \<Rightarrow> Fin 0.5 | Some x \<Rightarrow> x);
        max_uptake = (case m ''max_water_uptake'' of None \<Rightarrow> Fin 0.3 | Some x \<Rightarrow> x);
        q = fmul max_uptake (fadd (Fin 1) (fmul (Fin 0.3) hydrophilicity));
        k = fmul (fmul (Fin 5.0) hydrophilicity) (fdiv surface_area (Fin 1000))
    in simulate_mof_performance m hs t =
         \<lparr> humidity = hs,
           water_uptake = langmuir_isotherm hs q k,
           daily_yield_L_kg_day = fmul (np_mean (langmuir_isotherm hs q k)) (Fin 4),
           res_q_max = q, res_K = k, model = ''langmuir'' \<rparr>)
   \<and> simulate_mof_performance Map.empty hs t =
         \<lparr> humidity = hs,
           water_uptake =
             langmuir_isotherm hs (fmul (Fin 0.3) (fadd (Fin 1) (fmul (Fin 0.3) (Fin 0.5))))
               (fmul (fmul (Fin 5.0) (Fin 0.5)) (fdiv (Fin 1000) (Fin 1000))),
           daily_yield_L_kg_day =
             fmul (np_mean
               (langmuir_isotherm hs (fmul (Fin 0.3) (fadd (Fin 1) (fmul (Fin 0.3) (Fin 0.5))))
                 (fmul (fmul (Fin 5.0) (Fin 0.5)) (fdiv (Fin 1000) (Fin 1000))))) (Fin 4),
           res_q_max = fmul (Fin 0.3) (fadd (Fin 1) (fmul (Fin 0.3) (Fin 0.5))),
           res_K = fmul (fmul (Fin 5.0) (Fin 0.5)) (fdiv (Fin 1000) (Fin 1000)),
           model = ''langmuir'' \<rparr>
   \<and> simulate_mof_performance (m(''pore_volume_cm3g'' \<mapsto> pv)) hs t =
       simulate_mof_performance m hs t
   \<and> simulate_mof_performance (m(''pore_volume_cm3g'' := None)) hs t =
       simulate_mof_performance m hs t"
  unfolding simulate_mof_performance_def dict_get_def Let_def
  by (simp del: fadd.simps fmul.simps fdiv.simps)

section \<open>Properties of the site optimizer\<close>

text \<open>
  Claim C4. An altitude below 500 is \<open>sea_level\<close>, from 500 and below 1500
  \<open>low_altitude\<close>, from 1500 and below 3000 \<open>mid_altitude\<close>, and \<open>high_altitude\<close>
  otherwise; in particular 499, 500, 1499 and 3000 are classified as \<open>sea_level\<close>,
  \<open>low_altitude\<close>, \<open>low_altitude\<close> and \<open>high_altitude\<close>. Of the values that are
  not finite, \<open>-\<infinity>\<close> is \<open>sea_level\<close>, and \<open>+\<infinity>\<close> and NaN, which are below no
  threshold, are \<open>high_altitude\<close>.
\<close>

theorem C4_categorize_altitude:
  "categorize_altitude (Fin a) =
     (if a < 500 then ''sea_level'' else if a < 1500 then ''low_altitude''
      else if a < 3000 then ''mid_altitude'' else ''high_altitude'')
   \<and> categorize_altitude (Fin 499) = ''sea_level''
   \<and> categorize_altitude (Fin 500) = ''low_altitude''
   \<and> categorize_altitude (Fin 1499) = ''low_altitude''
   \<and> categorize_altitude (Fin 3000) = ''high_altitude''
   \<and> categorize_altitude NInf = ''sea_level''
   \<and> categorize_altitude PInf = ''high_altitude''
   \<and> categorize_altitude NaN = ''high_altitude''"
  by (simp add: categorize_altitude_def)


section \<open>Sorting by score\<close>

lemma fle_trans: "fle a b \<Longrightarrow> fle b c \<Longrightarrow> fle a c"
  by (cases a; cases b; cases c) auto

lemma not_flt_fle: "a \<noteq> NaN \<Longrightarrow> b \<noteq> NaN \<Longrightarrow> \<not> flt a b \<Longrightarrow> fle b a"
  by (cases a; cases b) auto

lemma flt_fle: "flt a b \<Longrightarrow> fle a b"
  by (cases a; cases b) auto

lemma flt_not_eq: "flt a b \<Longrightarrow> a \<noteq> b"
  by (cases a; cases b) auto

lemma mset_filter_split:
  "mset (filter (\<lambda>i. g i \<noteq> v) xs) + mset (filter (\<lambda>i. g i = v) xs) = mset xs"
  by (induction xs) auto

lemma nargsort_props:
  assumes ok: "argsort_ok f"
  shows nargsort_mset: "mset (nargsort f items) = mset [0..<length items]"
    and nargsort_sorted:
      "sorted_wrt (\<lambda>a b. items ! b = NaN \<or> fle (items ! b) (items ! a)) (nargsort f items)"
    and nargsort_stable:
      "argsort_stable f \<Longrightarrow>
        sorted_wrt (\<lambda>a b. items ! a = items ! b \<longrightarrow> a < b) (nargsort f items)"
proof -
  define nni where "nni = filter (\<lambda>i. items ! i \<noteq> NaN) [0..<length items]"
  define nani where "nani = filter (\<lambda>i. items ! i = NaN) [0..<length items]"
  define r where "r = rev nni"
  define vs where "vs = rev (map (\<lambda>i. items ! i) nni)"
  define p where "p = f vs"
  define indexer where "indexer = map (\<lambda>j. r ! j) p"
  have eq: "nargsort f items = rev indexer @ nani"
    by (simp add: nargsort_def Let_def indexer_def p_def vs_def r_def nni_def nani_def)
  have vs_r: "vs = map (\<lambda>i. items ! i) r" by (simp add: vs_def r_def rev_map)
  have len: "length vs = length r" by (simp add: vs_r)
  have nonan: "NaN \<notin> set vs" by (auto simp: vs_def nni_def)
  from ok nonan have p_mset: "mset p = mset [0..<length r]"
    and p_sorted: "sorted_wrt (\<lambda>i j. fle (vs ! i) (vs ! j)) p"
    unfolding argsort_ok_def p_def len[symmetric] by blast+
  have p_set: "set p = {0..<length r}"
    using mset_eq_setD[OF p_mset] by simp
  have vs_nth: "vs ! j = items ! (r ! j)" if "j \<in> set p" for j
    using that p_set by (simp add: vs_r)
  have "mset indexer = image_mset (\<lambda>j. r ! j) (mset [0..<length r])"
    by (simp add: indexer_def p_mset)
  also have "\<dots> = mset (map (\<lambda>j. r ! j) [0..<length r])" by simp
  also have "\<dots> = mset r" by (simp only: map_nth)
  finally have idx_mset: "mset indexer = mset nni" by (simp add: r_def)
  have "mset (nargsort f items) = mset nni + mset nani"
    by (simp add: eq idx_mset)
  also have "\<dots> = mset [0..<length items]"
    unfolding nni_def nani_def by (rule mset_filter_split)
  finally show "mset (nargsort f items) = mset [0..<length items]" .
  have idx_set: "set indexer = set nni" using mset_eq_setD[OF idx_mset] .
  have asc: "sorted_wrt (\<lambda>a b. fle (items ! a) (items ! b)) indexer"
    unfolding indexer_def sorted_wrt_map
    by (rule sorted_wrt_mono_rel[OF _ p_sorted]) (simp add: vs_nth)
  have desc: "sorted_wrt (\<lambda>a b. fle (items ! b) (items ! a)) (rev indexer)"
    using asc by (simp add: sorted_wrt_rev)
  have nan_all: "items ! b = NaN" if "b \<in> set nani" for b
    using that by (simp add: nani_def)
  show "sorted_wrt (\<lambda>a b. items ! b = NaN \<or> fle (items ! b) (items ! a)) (nargsort f items)"
    unfolding eq sorted_wrt_append
  proof (intro conjI ballI)
    show "sorted_wrt (\<lambda>a b. items ! b = NaN \<or> fle (items ! b) (items ! a)) (rev indexer)"
      by (rule sorted_wrt_mono_rel[OF _ desc]) simp
    show "sorted_wrt (\<lambda>a b. items ! b = NaN \<or> fle (items ! b) (items ! a)) nani"
      by (rule sorted_wrt_mono_rel[of _ "\<lambda>a b. True"]) (simp_all add: nan_all)
    show "items ! b = NaN \<or> fle (items ! b) (items ! a)"
      if "a \<in> set (rev indexer)" "b \<in> set nani" for a b
      using that nan_all by simp
  qed
  show "sorted_wrt (\<lambda>a b. items ! a = items ! b \<longrightarrow> a < b) (nargsort f items)"
    if st: "argsort_stable f"
  proof -
    from st nonan have p_st: "sorted_wrt (\<lambda>i j. vs ! i = vs ! j \<longrightarrow> i < j) p"
      unfolding argsort_stable_def p_def by blast
    have nni_inc: "sorted_wrt (<) nni" unfolding nni_def by (rule sorted_wrt_filter) simp
    then have r_dec: "sorted_wrt (\<lambda>a b. b < a) r" by (simp add: r_def sorted_wrt_rev)
    have r_less: "r ! j < r ! i" if "i < j" "j < length r" for i j
      using sorted_wrt_nth_less[OF r_dec that] .
    have a0: "sorted_wrt (\<lambda>a b. items ! a = items ! b \<longrightarrow> b < a) indexer"
      unfolding indexer_def sorted_wrt_map
    proof (rule sorted_wrt_mono_rel[OF _ p_st])
      fix i j assume i: "i \<in> set p" and j: "j \<in> set p"
        and h: "vs ! i = vs ! j \<longrightarrow> i < j"
      show "items ! (r ! i) = items ! (r ! j) \<longrightarrow> r ! j < r ! i"
      proof
        assume "items ! (r ! i) = items ! (r ! j)"
        then have "vs ! i = vs ! j" using vs_nth i j by simp
        then have "i < j" using h by simp
        moreover have "j < length r" using j p_set by simp
        ultimately show "r ! j < r ! i" by (rule r_less)
      qed
    qed
    have a: "sorted_wrt (\<lambda>a b. items ! a = items ! b \<longrightarrow> a < b) (rev indexer)"
      unfolding sorted_wrt_rev by (rule sorted_wrt_mono_rel[OF _ a0]) auto
    have b: "sorted_wrt (\<lambda>a b. items ! a = items ! b \<longrightarrow> a < b) nani"
      unfolding nani_def
      by (rule sorted_wrt_filter, rule sorted_wrt_mono_rel[of _ "(<)"]) simp_all
    have c: "items ! a \<noteq> items ! b" if "a \<in> set (rev indexer)" "b \<in> set nani" for a b
    proof -
      have "items ! a \<noteq> NaN" using that(1) idx_set by (simp add: nni_def)
      then show ?thesis using nan_all[OF that(2)] by simp
    qed
    show ?thesis unfolding eq sorted_wrt_append using a b c by blast
  qed
qed



lemma sort_values_desc_mset:
  assumes "argsort_ok f"
  shows "mset (sort_values_desc f df) = mset df"
proof -
  have "mset (sort_values_desc f df) =
      image_mset (\<lambda>i. df ! i) (mset (nargsort f (map performance_score df)))"
    by (simp add: sort_values_desc_def)
  also have "\<dots> = image_mset (\<lambda>i. df ! i) (mset [0..<length df])"
    using nargsort_mset[OF assms, of "map performance_score df"] by simp
  also have "\<dots> = mset (map (\<lambda>i. df ! i) [0..<length df])" by simp
  also have "\<dots> = mset df" by (simp only: map_nth)
  finally show ?thesis .
qed



lemma altitude_conditions_band:
  "altitude_conditions (categorize_altitude a) = Some (band_conditions a)"
  by (simp add: altitude_conditions_def categorize_altitude_def band_conditions_def)

lemma zip_map_same: "zip (map f xs) (map g xs) = map (\<lambda>x. (f x, g x)) xs"
  by (induction xs) auto

lemma zip_same_map: "zip xs (map g xs) = map (\<lambda>x. (x, g x)) xs"
  by (induction xs) auto

lemma optimize_rowwise:
  "optimize_for_location f df loc =
     Inr (sort_values_desc f
       (map (spec_ranked_row (band_conditions (dict_get loc ''altitude_m'' (Fin 0)))) df))"
  by (simp add: optimize_for_location_def altitude_conditions_band Let_def assign_columns_def
      zip_map_same zip_same_map comp_def spec_ranked_row_def[abs_def] spec_performance_score_def
      spec_estimated_daily_yield_def spec_humidity_factor_def spec_temp_factor_def
      spec_capacity_factor_def spec_cost_factor_def)

lemma insort_after_mset: "mset (insort_after xs i js) = add_mset i (mset js)"
  by (induction js) auto


lemma insort_after_set: "set (insort_after xs i js) = insert i (set js)"
  by (induction js) auto


lemma insort_after_sorted:
  assumes "sorted_wrt (\<lambda>a b. fle (xs ! a) (xs ! b)) js"
    and "xs ! i \<noteq> NaN" and "\<forall>j\<in>set js. xs ! j \<noteq> NaN"
  shows "sorted_wrt (\<lambda>a b. fle (xs ! a) (xs ! b)) (insort_after xs i js)"
  using assms
proof (induction js)
  case Nil
  then show ?case by simp
next
  case (Cons j js)
  show ?case
  proof (cases "flt (xs ! i) (xs ! j)")
    case True
    then have "fle (xs ! i) (xs ! j)" by (rule flt_fle)
    then have "\<forall>k\<in>set (j # js). fle (xs ! i) (xs ! k)"
      using Cons.prems(1) by (auto intro: fle_trans)
    then show ?thesis using True Cons.prems(1) by simp
  next
    case False
    then have "fle (xs ! j) (xs ! i)" using Cons.prems(2,3) by (intro not_flt_fle) auto
    then show ?thesis using False Cons by (auto simp: insort_after_set)
  qed
qed


lemma flt_fle_neq: "flt a b \<Longrightarrow> fle b c \<Longrightarrow> a \<noteq> c"
  by (cases a; cases b; cases c) auto

lemma insort_after_stable:
  assumes "sorted_wrt (\<lambda>a b. fle (xs ! a) (xs ! b)) js"
    and "sorted_wrt (\<lambda>a b. xs ! a = xs ! b \<longrightarrow> a < b) js"
    and "\<forall>j\<in>set js. j < i"
  shows "sorted_wrt (\<lambda>a b. xs ! a = xs ! b \<longrightarrow> a < b) (insort_after xs i js)"
  using assms
proof (induction js)
  case Nil
  then show ?case by simp
next
  case (Cons j js)
  show ?case
  proof (cases "flt (xs ! i) (xs ! j)")
    case True
    have "xs ! i \<noteq> xs ! k" if "k \<in> set (j # js)" for k
    proof -
      have "fle (xs ! j) (xs ! k) \<or> k = j" using that Cons.prems(1) by auto
      then show ?thesis using True flt_fle_neq flt_not_eq by metis
    qed
    then show ?thesis using True Cons.prems(2) by simp
  next
    case False
    then show ?thesis using Cons by (auto simp: insort_after_set)
  qed
qed

lemma argsort_insertion_aux:
  assumes "NaN \<notin> set xs" and "k \<le> length xs"
  shows "mset (foldl (\<lambda>acc i. insort_after xs i acc) [] [0..<k]) = mset [0..<k]
    \<and> sorted_wrt (\<lambda>a b. fle (xs ! a) (xs ! b)) (foldl (\<lambda>acc i. insort_after xs i acc) [] [0..<k])
    \<and> sorted_wrt (\<lambda>a b. xs ! a = xs ! b \<longrightarrow> a < b) (foldl (\<lambda>acc i. insort_after xs i acc) [] [0..<k])"
  using assms(2)
proof (induction k)
  case 0
  then show ?case by simp
next
  case (Suc k)
  define acc where "acc = foldl (\<lambda>acc i. insort_after xs i acc) [] [0..<k]"
  have ih: "mset acc = mset [0..<k]" "sorted_wrt (\<lambda>a b. fle (xs ! a) (xs ! b)) acc"
    "sorted_wrt (\<lambda>a b. xs ! a = xs ! b \<longrightarrow> a < b) acc"
    using Suc by (simp_all add: acc_def)
  have set_acc: "set acc = {0..<k}" using mset_eq_setD[OF ih(1)] by simp
  have nn: "xs ! j \<noteq> NaN" if "j \<le> k" for j
    using assms(1) Suc.prems that by (metis Suc_le_lessD le_trans not_less_eq_eq nth_mem)
  have step: "foldl (\<lambda>acc i. insort_after xs i acc) [] [0..<Suc k] = insort_after xs k acc"
    by (simp add: acc_def)
  show ?case unfolding step
  proof (intro conjI)
    show "mset (insort_after xs k acc) = mset [0..<Suc k]"
      by (simp add: insort_after_mset ih(1))
    show "sorted_wrt (\<lambda>a b. fle (xs ! a) (xs ! b)) (insort_after xs k acc)"
      using ih(2) nn by (intro insort_after_sorted) (auto simp: set_acc)
    show "sorted_wrt (\<lambda>a b. xs ! a = xs ! b \<longrightarrow> a < b) (insort_after xs k acc)"
      using ih(2,3) by (intro insort_after_stable) (auto simp: set_acc)
  qed
qed


lemma argsort_insertion_ok: "argsort_ok argsort_insertion"
  unfolding argsort_ok_def argsort_insertion_def using argsort_insertion_aux by blast



section \<open>Properties of the ranking\<close>

lemma spec_ranked_row_sel:
  "mof_row.truncate (spec_ranked_row c r) = r"
  "performance_score (spec_ranked_row c r) = spec_performance_score c r"
  "estimated_daily_yield (spec_ranked_row c r) = spec_estimated_daily_yield c r"
  by (simp_all add: spec_ranked_row_def mof_row.defs ranked_row.defs)

lemma optimize_result:
  assumes "argsort_ok f"
  shows "\<exists>out. optimize_for_location f df loc = Inr out
    \<and> mset out = image_mset (spec_ranked_row (band_conditions (dict_get loc ''altitude_m'' (Fin 0))))
        (mset df)"
  using sort_values_desc_mset[OF assms] by (simp add: optimize_rowwise)

lemma optimize_result_set:
  assumes "argsort_ok f" and "optimize_for_location f df loc = Inr out"
  shows "set out = spec_ranked_row (band_conditions (dict_get loc ''altitude_m'' (Fin 0))) ` set df"
proof -
  from optimize_result[OF assms(1), of df loc] assms(2)
  have "mset out = image_mset (spec_ranked_row (band_conditions (dict_get loc ''altitude_m'' (Fin 0))))
        (mset df)" by simp
  then have "set_mset (mset out) = set_mset (image_mset
      (spec_ranked_row (band_conditions (dict_get loc ''altitude_m'' (Fin 0)))) (mset df))"
    by simp
  then show ?thesis by simp
qed

lemma fadd_PInf_not_Fin: "fadd x PInf \<noteq> Fin s"
  by (cases x) auto

text \<open>
  Claim C1. For every material table and every location the program returns, without
  error, the rows of the table reordered and each annotated with the specification's
  \<open>performanceScore\<close> and \<open>estimatedDailyYield\<close> for the band of the location's altitude
  (altitude 0 when the location has none): the score is
  \<open>0.3\<sqdot>humidityFactor + 0.25\<sqdot>tempFactor + 0.25\<sqdot>capacityFactor + 0.2\<sqdot>costFactor\<close> with
  the four factors as specified, the yield is \<open>maxWaterUptake \<sqdot> humidityAvg \<sqdot> 4\<close>, and the
  material's own columns are unchanged. The scenario material at altitude 1200 gets the
  score 0.925 (exactly, hence within \<open>10\<^sup>-\<^sup>9\<close>) and the yield 0.6. The library sort is any
  routine that meets NumPy's contract.
\<close>

theorem C1_performance_score:
  assumes "argsort_ok f"
  shows "(\<exists>out. optimize_for_location f df loc = Inr out
      \<and> mset out =
          image_mset (spec_ranked_row (band_conditions (dict_get loc ''altitude_m'' (Fin 0))))
            (mset df))
    \<and> mof_row.truncate (spec_ranked_row c r) = r
    \<and> performance_score (spec_ranked_row c r) =
        fadd (fadd (fadd (fmul (Fin 0.3) (fdiv (hydrophilicity r) (humidity_avg c)))
                         (fmul (Fin 0.25)
                            (np_clip (fdiv (thermal_stability_K r) (temp_K c)) (Fin 0.8) (Fin 1.2))))
                   (fmul (Fin 0.25)
                      (fmul (fdiv (surface_area_m2g r) (Fin 1000)) (pore_volume_cm3g r))))
             (fmul (Fin 0.2) (fdiv (Fin 1) (fdiv (cost_per_kg r) (Fin 50))))
    \<and> estimated_daily_yield (spec_ranked_row c r) =
        fmul (fmul (max_water_uptake r) (humidity_avg c)) (Fin 4)
    \<and> optimize_for_location f [example_mof i (Fin 0.5) (Fin 50)] [''altitude_m'' \<mapsto> Fin 1200] =
        Inr [example_ranked i (Fin 0.5) (Fin 50) (Fin 0.925) (Fin 0.6)]
    \<and> spec_humidity_factor (band_conditions (Fin 1200)) (example_mof i (Fin 0.5) (Fin 50)) = Fin 1
    \<and> spec_temp_factor (band_conditions (Fin 1200)) (example_mof i (Fin 0.5) (Fin 50)) = Fin 1.2
    \<and> spec_capacity_factor (example_mof i (Fin 0.5) (Fin 50)) = Fin 0.5
    \<and> spec_cost_factor (example_mof i (Fin 0.5) (Fin 50)) = Fin 1"
proof (intro conjI)
  show "\<exists>out. optimize_for_location f df loc = Inr out
      \<and> mset out =
          image_mset (spec_ranked_row (band_conditions (dict_get loc ''altitude_m'' (Fin 0))))
            (mset df)"
    by (rule optimize_result[OF assms])
next
  obtain out where o: "optimize_for_location f [example_mof i (Fin 0.5) (Fin 50)]
        [''altitude_m'' \<mapsto> Fin 1200] = Inr out"
    and m: "mset out = image_mset
        (spec_ranked_row (band_conditions (dict_get [''altitude_m'' \<mapsto> Fin 1200] ''altitude_m'' (Fin 0))))
        (mset [example_mof i (Fin 0.5) (Fin 50)])"
    using optimize_result[OF assms] by blast
  have "spec_ranked_row (band_conditions (dict_get [''altitude_m'' \<mapsto> Fin 1200] ''altitude_m'' (Fin 0)))
      (example_mof i (Fin 0.5) (Fin 50)) = example_ranked i (Fin 0.5) (Fin 50) (Fin 0.925) (Fin 0.6)"
    by (simp add: spec_ranked_row_def spec_performance_score_def spec_estimated_daily_yield_def
        spec_humidity_factor_def spec_temp_factor_def spec_capacity_factor_def
        spec_cost_factor_def band_conditions_def dict_get_def np_clip_def example_mof_def
        example_ranked_def mof_row.defs ranked_row.defs)
  then have "out = [example_ranked i (Fin 0.5) (Fin 50) (Fin 0.925) (Fin 0.6)]"
    using m by simp
  then show "optimize_for_location f [example_mof i (Fin 0.5) (Fin 50)]
      [''altitude_m'' \<mapsto> Fin 1200] = Inr [example_ranked i (Fin 0.5) (Fin 50) (Fin 0.925) (Fin 0.6)]"
    using o by simp
qed (simp_all add: spec_ranked_row_sel spec_performance_score_def spec_estimated_daily_yield_def
        spec_humidity_factor_def spec_temp_factor_def spec_capacity_factor_def
        spec_cost_factor_def band_conditions_def np_clip_def example_mof_def)

theorem C1_performance_score_witness:
  "optimize_for_location argsort_insertion [example_mof 7 (Fin 0.5) (Fin 50)]
     [''altitude_m'' \<mapsto> Fin 1200]
   = Inr [example_ranked 7 (Fin 0.5) (Fin 50) (Fin 0.925) (Fin 0.6)]
   \<and> performance_score (spec_ranked_row (band_conditions (Fin 1200))
         (example_mof 7 (Fin 0.5) (Fin 50))) = Fin 0.925
   \<and> estimated_daily_yield (spec_ranked_row (band_conditions (Fin 1200))
         (example_mof 7 (Fin 0.5) (Fin 50))) = Fin 0.6"
proof -
  have out: "optimize_for_location argsort_insertion [example_mof 7 (Fin 0.5) (Fin 50)]
     [''altitude_m'' \<mapsto> Fin 1200]
   = Inr [example_ranked 7 (Fin 0.5) (Fin 50) (Fin 0.925) (Fin 0.6)]"
    by code_simp
  from C1_performance_score [OF argsort_insertion_ok,
      of "[example_mof 7 (Fin 0.5) (Fin 50)]" "[''altitude_m'' \<mapsto> Fin 1200]"
         "band_conditions (Fin 1200)" "example_mof 7 (Fin 0.5) (Fin 50)" 7]
  have "mset [example_ranked 7 (Fin 0.5) (Fin 50) (Fin 0.925) (Fin 0.6)] =
      {#spec_ranked_row (band_conditions (Fin 1200)) (example_mof 7 (Fin 0.5) (Fin 50))#}"
    unfolding out by (simp add: dict_get_def)
  then have "spec_ranked_row (band_conditions (Fin 1200)) (example_mof 7 (Fin 0.5) (Fin 50)) =
      example_ranked 7 (Fin 0.5) (Fin 50) (Fin 0.925) (Fin 0.6)"
    by simp
  then show ?thesis using out by (simp add: example_ranked_def)
qed




text \<open>
  Claim C6, as amended. When a material of the table has \<open>cost_per_kg = 0\<close>, the program
  raises no error: the division by zero yields an infinite cost factor, the run returns a
  ranking, and that material is in it with a \<open>performance_score\<close> that is not a finite
  number (an infinity or NaN).
\<close>

theorem C6_zero_cost_no_error:
  assumes "argsort_ok f" and "r \<in> set df" and "cost_per_kg r = Fin 0"
  shows "\<exists>out. optimize_for_location f df loc = Inr out
     \<and> (\<exists>x\<in>set out. mof_row.truncate x = r)
     \<and> (\<forall>x\<in>set out. mof_row.truncate x = r \<longrightarrow> (\<forall>s. performance_score x \<noteq> Fin s))"
proof -
  define c where "c = band_conditions (dict_get loc ''altitude_m'' (Fin 0))"
  obtain out where o: "optimize_for_location f df loc = Inr out"
    using optimize_result[OF assms(1)] by blast
  have s: "set out = spec_ranked_row c ` set df"
    unfolding c_def by (rule optimize_result_set[OF assms(1) o])
  have "spec_cost_factor r = PInf"
    using assms(3) by (simp add: spec_cost_factor_def inf_signed_def)
  then have sc: "spec_performance_score c r \<noteq> Fin s" for s
    unfolding spec_performance_score_def by (simp add: inf_signed_def fadd_PInf_not_Fin)
  have "\<exists>x\<in>set out. mof_row.truncate x = r"
    using s assms(2) by (auto simp: spec_ranked_row_sel)
  moreover have "\<forall>x\<in>set out. mof_row.truncate x = r \<longrightarrow> (\<forall>s. performance_score x \<noteq> Fin s)"
    using s sc by (auto simp: spec_ranked_row_sel)
  ultimately show ?thesis using o by blast
qed

theorem C6_zero_cost_witness:
  "optimize_for_location argsort_insertion
     [example_mof 1 (Fin 0.5) (Fin 0), example_mof 2 (Fin 0.5) (Fin 50)]
     [''altitude_m'' \<mapsto> Fin 1200]
   = Inr [example_ranked 1 (Fin 0.5) (Fin 0) PInf (Fin 0.6),
          example_ranked 2 (Fin 0.5) (Fin 50) (Fin 0.925) (Fin 0.6)]
   \<and> mof_row.truncate (example_ranked 1 (Fin 0.5) (Fin 0) PInf (Fin 0.6)) =
       example_mof 1 (Fin 0.5) (Fin 0)
   \<and> performance_score (example_ranked 1 (Fin 0.5) (Fin 0) PInf (Fin 0.6)) \<noteq> Fin 0.925"
proof -
  have out: "optimize_for_location argsort_insertion
     [example_mof 1 (Fin 0.5) (Fin 0), example_mof 2 (Fin 0.5) (Fin 50)]
     [''altitude_m'' \<mapsto> Fin 1200]
   = Inr [example_ranked 1 (Fin 0.5) (Fin 0) PInf (Fin 0.6),
          example_ranked 2 (Fin 0.5) (Fin 50) (Fin 0.925) (Fin 0.6)]"
    by code_simp
  have tr: "mof_row.truncate (example_ranked 1 (Fin 0.5) (Fin 0) PInf (Fin 0.6)) =
       example_mof 1 (Fin 0.5) (Fin 0)"
    by (simp add: example_ranked_def example_mof_def mof_row.defs)
  have hyps: "example_mof 1 (Fin 0.5) (Fin 0) \<in>
        set [example_mof 1 (Fin 0.5) (Fin 0), example_mof 2 (Fin 0.5) (Fin 50)]"
      "cost_per_kg (example_mof 1 (Fin 0.5) (Fin 0)) = Fin 0"
    by (simp_all add: example_mof_def)
  from C6_zero_cost_no_error [OF argsort_insertion_ok hyps,
      of "[''altitude_m'' \<mapsto> Fin 1200]"]
  have "performance_score (example_ranked 1 (Fin 0.5) (Fin 0) PInf (Fin 0.6)) \<noteq> Fin 0.925"
    unfolding out using tr by simp
  with out tr show ?thesis by blast
qed

text \<open>
  Claim C6 as stated (a division-by-zero error is raised) fails: for the scenario
  material with cost 0 the run returns a ranking whose only row has an infinite score.
\<close>

theorem C6_no_error_counterexample:
  "optimize_for_location argsort_insertion [example_mof 1 (Fin 0.5) (Fin 0)]
     [''altitude_m'' \<mapsto> Fin 1200]
   = Inr [example_ranked 1 (Fin 0.5) (Fin 0) PInf (Fin 0.6)]"
  by code_simp

end
